theory Spec2Isabelle
  imports Complex_Main "HOL-Library.Sublist"
begin

section \<open>The stream relay of \<^verbatim>\<open>owui-pipe.py\<close>\<close>

text \<open>
  The development embeds \<^verbatim>\<open>Pipe.pipe\<close> (lines 123 to 248 of \<^verbatim>\<open>src/owui-pipe.py\<close>):
  the configuration check, the request, the loop over the lines of the response, the
  local function \<^verbatim>\<open>flush_buffer\<close> and the exception handlers at the end.

  Everything the function gets from outside is an explicit parameter: the JSON decoder
  \<^verbatim>\<open>json.loads\<close>, the host callback \<^verbatim>\<open>__event_emitter__\<close>, the clock
  \<^verbatim>\<open>time.monotonic\<close> and the HTTP transport. Everything it does is recorded in the
  state: the calls made to the callback, in order, and the requests sent.

  A Python string is a \<open>string\<close> whose characters stand for the code points below 256.
  Leaving the two \<^verbatim>\<open>async with\<close> blocks (closing the response and the client) is taken
  not to raise.
\<close>

subsection \<open>Python values\<close>

text \<open>
  The value \<^verbatim>\<open>json.loads\<close> returns. A dict is an association list read with
  \<open>map_of\<close> (one entry per key, as in a Python dict). Finite numbers only: the NaN and the infinities that the decoder also
  accepts are truthy, have no \<^verbatim>\<open>get\<close> and no subscript, as \<open>JFloat 1\<close>.
\<close>

datatype json =
    JNull
  | JBool bool
  | JInt int
  | JFloat real
  | JStr string
  | JList "json list"
  | JDict "(string \<times> json) list"

text \<open>
  Exceptions, by the classes the handlers of \<^verbatim>\<open>pipe\<close> tell apart. The four timeouts are
  the subclasses of \<^verbatim>\<open>httpx.TimeoutException\<close>. \<open>OtherException c m\<close> is any other
  instance of \<^verbatim>\<open>Exception\<close>, of class \<open>c\<close> and with \<^verbatim>\<open>str(e)\<close> = \<open>m\<close>;
  \<open>JSONDecodeError m\<close> carries its \<^verbatim>\<open>str(e)\<close> too. \<open>BaseExc c\<close> is an instance of
  \<^verbatim>\<open>BaseException\<close> that is not an \<^verbatim>\<open>Exception\<close>: \<^verbatim>\<open>asyncio.CancelledError\<close>,
  \<^verbatim>\<open>KeyboardInterrupt\<close>, \<^verbatim>\<open>SystemExit\<close>.
\<close>

datatype timeout_phase = ConnectTimeout | ReadTimeout | WriteTimeout | PoolTimeout

datatype exn =
    TimeoutException timeout_phase
  | ConnectError
  | HTTPStatusError nat
  | JSONDecodeError string
  | OtherException string string
  | BaseExc string

fun is_Exception :: "exn \<Rightarrow> bool" where
  "is_Exception (BaseExc c) = False"
| "is_Exception e = True"

fun type_name :: "json \<Rightarrow> string" where
  "type_name JNull = ''NoneType''"
| "type_name (JBool b) = ''bool''"
| "type_name (JInt i) = ''int''"
| "type_name (JFloat r) = ''float''"
| "type_name (JStr s) = ''str''"
| "type_name (JList xs) = ''list''"
| "type_name (JDict kv) = ''dict''"

text \<open>Python's truth value of a decoded value.\<close>

fun truthy :: "json \<Rightarrow> bool" where
  "truthy JNull = False"
| "truthy (JBool b) = b"
| "truthy (JInt i) = (i \<noteq> 0)"
| "truthy (JFloat r) = (r \<noteq> 0)"
| "truthy (JStr s) = (s \<noteq> [])"
| "truthy (JList xs) = (xs \<noteq> [])"
| "truthy (JDict kv) = (kv \<noteq> [])"

text \<open>\<^verbatim>\<open>x.get(k, d)\<close>: only a dict has the method.\<close>

fun py_get :: "json \<Rightarrow> string \<Rightarrow> json \<Rightarrow> exn + json" where
  "py_get (JDict kv) k d = Inr (case map_of kv k of Some v \<Rightarrow> v | None \<Rightarrow> d)"
| "py_get x k d =
     Inl (OtherException ''AttributeError''
            ([CHR 0x27] @ type_name x @ [CHR 0x27] @ '' object has no attribute '' @
             [CHR 0x27] @ ''get'' @ [CHR 0x27]))"

text \<open>\<^verbatim>\<open>x[k]\<close> for a string key, on the dict that \<^verbatim>\<open>get\<close> has just read.\<close>

fun py_item :: "json \<Rightarrow> string \<Rightarrow> exn + json" where
  "py_item (JDict kv) k =
     (case map_of kv k of
        Some v \<Rightarrow> Inr v
      | None \<Rightarrow> Inl (OtherException ''KeyError'' ([CHR 0x27] @ k @ [CHR 0x27])))"
| "py_item x k =
     Inl (OtherException ''TypeError''
            ([CHR 0x27] @ type_name x @ [CHR 0x27] @ '' object is not subscriptable''))"

text \<open>
  \<^verbatim>\<open>x[0]\<close>: the first element of a list, the first character of a string, the key
  \<^verbatim>\<open>0\<close> of a dict (whose keys are strings, so it is missing), a type error otherwise.
\<close>

fun py_item0 :: "json \<Rightarrow> exn + json" where
  "py_item0 (JList []) = Inl (OtherException ''IndexError'' ''list index out of range'')"
| "py_item0 (JList (x # xs)) = Inr x"
| "py_item0 (JStr []) = Inl (OtherException ''IndexError'' ''string index out of range'')"
| "py_item0 (JStr (c # cs)) = Inr (JStr [c])"
| "py_item0 (JDict kv) = Inl (OtherException ''KeyError'' ''0'')"
| "py_item0 x =
     Inl (OtherException ''TypeError''
            ([CHR 0x27] @ type_name x @ [CHR 0x27] @ '' object is not subscriptable''))"

definition and_then :: "exn + 'a \<Rightarrow> ('a \<Rightarrow> exn + 'b) \<Rightarrow> exn + 'b" where
  "and_then r f = (case r of Inl e \<Rightarrow> Inl e | Inr x \<Rightarrow> f x)"

text \<open>\<^verbatim>\<open>data['choices'][0].get('delta', {}).get('content', '')\<close> (line 229).\<close>

definition delta_content :: "json \<Rightarrow> exn + json" where
  "delta_content data =
     and_then (py_item data ''choices'') (\<lambda>choices.
     and_then (py_item0 choices) (\<lambda>choice.
     and_then (py_get choice ''delta'' (JDict [])) (\<lambda>delta.
       py_get delta ''content'' (JStr []))))"

subsection \<open>Strings\<close>

text \<open>
  The characters \<^verbatim>\<open>str.strip()\<close> removes, among the code points below 256: tab to
  carriage return, the four separators 0x1C to 0x1F, the space, NEL and the no-break space.
\<close>

definition is_space :: "char \<Rightarrow> bool" where
  "is_space c = ((of_char c :: nat) \<in> {9, 10, 11, 12, 13, 28, 29, 30, 31, 32, 133, 160})"

definition strip :: "string \<Rightarrow> string" where
  "strip s = rev (dropWhile is_space (rev (dropWhile is_space s)))"

definition startswith :: "string \<Rightarrow> string \<Rightarrow> bool" where
  "startswith s p = (take (length p) s = p)"

definition digit_char :: "nat \<Rightarrow> char" where
  "digit_char d = ''0123456789'' ! d"

fun str_nat :: "nat \<Rightarrow> string" where
  "str_nat n = (if n < 10 then [digit_char n] else str_nat (n div 10) @ [digit_char (n mod 10)])"

subsection \<open>Sink events, environment and state\<close>

text \<open>
  The three dicts handed to the callback: \<^verbatim>\<open>{"type": "message", "data": {"content": t}}\<close>,
  \<^verbatim>\<open>{"type": "status", "data": d}\<close> and \<^verbatim>\<open>{"type": "citation", "data": d}\<close>.
\<close>

datatype sink_event = Message string | Status json | Citation json

text \<open>
  A callback gets the events delivered before and the new one, and returns (\<open>None\<close>) or
  raises. The line source of a response is its lines and, after the last one, the
  exception the transport raises there, if any; \<open>None\<close> is a body that ends.
\<close>

type_synonym emitter = "sink_event list \<Rightarrow> sink_event \<Rightarrow> exn option"

record response =
  status_code :: nat
  body_lines :: "string list"
  body_error :: "exn option"

record request =
  req_url :: string
  req_authorization :: string
  req_json :: json

text \<open>
  A Python float is the real number it denotes. \<open>monotonic env n\<close> is the value of the
  \<open>n\<close>-th call of \<^verbatim>\<open>time.monotonic()\<close>, in seconds. \<open>float_sub env a b\<close> is the float
  that \<^verbatim>\<open>a - b\<close> evaluates to in Python: the difference of the two doubles, rounded to a
  double. It is not the exact difference: for the doubles written \<^verbatim>\<open>0.054\<close> and
  \<^verbatim>\<open>0.004\<close> it is the double \<^verbatim>\<open>0.05\<close>, which the exact difference is below.
  Comparing two floats is exact.
\<close>

record env =
  loads :: "string \<Rightarrow> exn + json"
  event_emitter :: "emitter option"
  monotonic :: "nat \<Rightarrow> real"
  float_sub :: "real \<Rightarrow> real \<Rightarrow> real"
  transport :: "request \<Rightarrow> exn + response"

text \<open>
  The three variables of the loop, the calls made to the callback so far (\<open>sink\<close>) and
  the number of clock readings taken so far (\<open>clock_reads\<close>).
\<close>

record relay_state =
  current_event :: "string option"
  token_buffer :: string
  last_flush :: real
  sink :: "sink_event list"
  clock_reads :: nat

datatype result = Returned relay_state | Raised exn relay_state

text \<open>The double that the literal \<^verbatim>\<open>0.05\<close> of line 199 denotes, a little above 1/20.\<close>

definition FLUSH_INTERVAL :: real where
  "FLUSH_INTERVAL = 3602879701896397 / 72057594037927936"

text \<open>A call of the callback: the call is recorded, then it returns or raises.\<close>

definition call_emitter :: "emitter \<Rightarrow> sink_event \<Rightarrow> relay_state \<Rightarrow> result" where
  "call_emitter em ev s =
     (case em (sink s) ev of
        None \<Rightarrow> Returned (s\<lparr>sink := sink s @ [ev]\<rparr>)
      | Some e \<Rightarrow> Raised e (s\<lparr>sink := sink s @ [ev]\<rparr>))"

text \<open>\<^verbatim>\<open>flush_buffer\<close> (lines 201 to 206).\<close>

definition flush_buffer :: "env \<Rightarrow> relay_state \<Rightarrow> result" where
  "flush_buffer env s =
     (case event_emitter env of
        None \<Rightarrow> Returned s
      | Some em \<Rightarrow>
          if token_buffer s \<noteq> [] then
            (case call_emitter em (Message (token_buffer s)) s of
               Raised e s1 \<Rightarrow> Raised e s1
             | Returned s1 \<Rightarrow>
                 Returned (s1\<lparr>token_buffer := [],
                              last_flush := monotonic env (clock_reads s1),
                              clock_reads := Suc (clock_reads s1)\<rparr>))
          else Returned s)"

text \<open>
  The two tagged branches (lines 222 to 227): flush, read \<^verbatim>\<open>data.get('data', {})\<close>,
  call the callback.
\<close>

definition emit_tagged :: "env \<Rightarrow> emitter \<Rightarrow> (json \<Rightarrow> sink_event) \<Rightarrow> json \<Rightarrow> relay_state \<Rightarrow> result" where
  "emit_tagged env em mk data s =
     (case flush_buffer env s of
        Raised e s1 \<Rightarrow> Raised e s1
      | Returned s1 \<Rightarrow>
          (case py_get data ''data'' (JDict []) of
             Inl e \<Rightarrow> Raised e s1
           | Inr d \<Rightarrow> call_emitter em (mk d) s1))"

text \<open>
  The token branch (lines 229 to 233), entered with a callback present. The test of line
  232 subtracts two floats and compares the result with \<^verbatim>\<open>FLUSH_INTERVAL\<close>.
\<close>

definition append_token :: "env \<Rightarrow> json \<Rightarrow> relay_state \<Rightarrow> result" where
  "append_token env data s =
     (case delta_content data of
        Inl e \<Rightarrow> Raised e s
      | Inr content \<Rightarrow>
          if truthy content then
            (case content of
               JStr t \<Rightarrow>
                 (let s1 = s\<lparr>token_buffer := token_buffer s @ t\<rparr>;
                      now = monotonic env (clock_reads s1);
                      s2 = s1\<lparr>clock_reads := Suc (clock_reads s1)\<rparr>
                  in if float_sub env now (last_flush s2) \<ge> FLUSH_INTERVAL then flush_buffer env s2
                     else Returned s2)
             | _ \<Rightarrow>
                 Raised (OtherException ''TypeError''
                           (''can only concatenate str (not '' @ [CHR 0x22] @ type_name content @
                            [CHR 0x22] @ '') to str'')) s)
          else Returned s)"

text \<open>
  The body of the inner \<^verbatim>\<open>try\<close> up to the assignment of line 234 (lines 221 to 233).
  The conditions are evaluated in the order of the source: the tag is compared before the
  callback is tested, and \<^verbatim>\<open>data.get('choices')\<close> is called before the callback is tested.
\<close>

definition handle_data :: "env \<Rightarrow> relay_state \<Rightarrow> string \<Rightarrow> result" where
  "handle_data env s data_str =
     (case loads env data_str of
        Inl e \<Rightarrow> Raised e s
      | Inr data \<Rightarrow>
          (case (if current_event s = Some ''status'' then event_emitter env else None) of
             Some em \<Rightarrow> emit_tagged env em Status data s
           | None \<Rightarrow>
          (case (if current_event s = Some ''source'' then event_emitter env else None) of
             Some em \<Rightarrow> emit_tagged env em Citation data s
           | None \<Rightarrow>
          (case py_get data ''choices'' JNull of
             Inl e \<Rightarrow> Raised e s
           | Inr choices \<Rightarrow>
               if truthy choices \<and> event_emitter env \<noteq> None then append_token env data s
               else Returned s))))"

text \<open>What one line does to the loop.\<close>

datatype step = Continue relay_state | Break relay_state | Abort exn relay_state

text \<open>
  The body of the loop (lines 209 to 236). Line 234 clears the tag when the \<^verbatim>\<open>try\<close> body
  ends; the handler of line 235 catches a \<^verbatim>\<open>JSONDecodeError\<close> raised anywhere in it
  and clears the tag too; any other exception leaves the loop.
\<close>

definition process_line :: "env \<Rightarrow> relay_state \<Rightarrow> string \<Rightarrow> step" where
  "process_line env s raw =
     (let line = strip raw in
      if line = [] then Continue s
      else if startswith line ''event: '' then
        Continue (s\<lparr>current_event := Some (strip (drop 7 line))\<rparr>)
      else if startswith line ''data: '' then
        (let data_str = drop 6 line in
         if data_str = ''[DONE]'' then
           (case flush_buffer env s of
              Returned s1 \<Rightarrow> Break s1
            | Raised e s1 \<Rightarrow> Abort e s1)
         else
           (case handle_data env s data_str of
              Returned s1 \<Rightarrow> Continue (s1\<lparr>current_event := None\<rparr>)
            | Raised (JSONDecodeError m) s1 \<Rightarrow> Continue (s1\<lparr>current_event := None\<rparr>)
            | Raised e s1 \<Rightarrow> Abort e s1))
      else Continue s)"

datatype loop_end = Exhausted relay_state | Broke relay_state | Aborted exn relay_state

text \<open>The loop of line 208 over the lines the response yields.\<close>

fun run_lines :: "env \<Rightarrow> relay_state \<Rightarrow> string list \<Rightarrow> loop_end" where
  "run_lines env s [] = Exhausted s"
| "run_lines env s (l # ls) =
     (case process_line env s l of
        Continue s1 \<Rightarrow> run_lines env s1 ls
      | Break s1 \<Rightarrow> Broke s1
      | Abort e s1 \<Rightarrow> Aborted e s1)"

text \<open>The state at line 198: no tag, an empty buffer, the first clock reading.\<close>

definition initial_state :: "env \<Rightarrow> relay_state" where
  "initial_state env =
     \<lparr>current_event = None, token_buffer = [], last_flush = monotonic env 0,
      sink = [], clock_reads = 1\<rparr>"

text \<open>\<^verbatim>\<open>response.raise_for_status()\<close> of httpx: any status outside 200 to 299 raises.\<close>

definition raise_for_status :: "response \<Rightarrow> exn option" where
  "raise_for_status r =
     (if 200 \<le> status_code r \<and> status_code r \<le> 299 then None
      else Some (HTTPStatusError (status_code r)))"

text \<open>
  Lines 192 to 239 on a response: the loop, and the final flush, which runs when the loop
  ends by \<^verbatim>\<open>break\<close> or because the line source is exhausted. A line source that
  raises after its last line leaves the block with that exception.
\<close>

definition relay :: "env \<Rightarrow> response \<Rightarrow> result" where
  "relay env r =
     (case run_lines env (initial_state env) (body_lines r) of
        Aborted e s \<Rightarrow> Raised e s
      | Broke s \<Rightarrow> flush_buffer env s
      | Exhausted s \<Rightarrow>
          (case body_error r of
             Some e \<Rightarrow> Raised e s
           | None \<Rightarrow> flush_buffer env s))"

subsection \<open>The entry point\<close>

text \<open>
  The two settings \<^verbatim>\<open>pipe\<close> itself reads. The other fields of \<^verbatim>\<open>Valves\<close> only enter
  the payload, which lines 137 to 177 build before the request and which is a parameter
  here.
\<close>

record valves =
  TOOLSET_API_URL :: string
  TOOLSET_API_KEY :: string

text \<open>
  What a call of \<^verbatim>\<open>pipe\<close> leaves behind: the string it returns (\<open>Inr\<close>) or the exception
  that leaves it (\<open>Inl\<close>), the requests handed to the transport and the calls made to
  the callback.
\<close>

record outcome =
  returned :: "exn + string"
  requests :: "request list"
  events :: "sink_event list"

text \<open>The handlers of lines 241 to 248; nothing catches a \<open>BaseExc\<close>.\<close>

fun handle_exception :: "valves \<Rightarrow> exn \<Rightarrow> exn + string" where
  "handle_exception v (TimeoutException p) = Inr ''Error: Request timed out''"
| "handle_exception v ConnectError = Inr (''Error: Could not connect to '' @ TOOLSET_API_URL v)"
| "handle_exception v (HTTPStatusError c) = Inr (''Error: HTTP '' @ str_nat c)"
| "handle_exception v (JSONDecodeError m) = Inr (''Error: '' @ m)"
| "handle_exception v (OtherException c m) = Inr (''Error: '' @ m)"
| "handle_exception v (BaseExc c) = Inl (BaseExc c)"

definition build_request :: "valves \<Rightarrow> json \<Rightarrow> request" where
  "build_request v payload =
     \<lparr>req_url = TOOLSET_API_URL v @ ''/api/v1/chat'',
      req_authorization = ''Bearer '' @ TOOLSET_API_KEY v,
      req_json = payload\<rparr>"

definition pipe :: "env \<Rightarrow> valves \<Rightarrow> json \<Rightarrow> outcome" where
  "pipe env v payload =
     (if TOOLSET_API_URL v = [] then
        \<lparr>returned = Inr ''Error: TOOLSET_API_URL not configured'', requests = [], events = []\<rparr>
      else if TOOLSET_API_KEY v = [] then
        \<lparr>returned = Inr ''Error: TOOLSET_API_KEY not configured'', requests = [], events = []\<rparr>
      else
        (let req = build_request v payload in
         case transport env req of
           Inl e \<Rightarrow> \<lparr>returned = handle_exception v e, requests = [req], events = []\<rparr>
         | Inr r \<Rightarrow>
             (case raise_for_status r of
                Some e \<Rightarrow> \<lparr>returned = handle_exception v e, requests = [req], events = []\<rparr>
              | None \<Rightarrow>
                  (case relay env r of
                     Returned s \<Rightarrow> \<lparr>returned = Inr [], requests = [req], events = sink s\<rparr>
                   | Raised e s \<Rightarrow>
                       \<lparr>returned = handle_exception v e, requests = [req], events = sink s\<rparr>))))"

subsection \<open>Reading the outcome of a step\<close>

text \<open>
  The Message a flush hands to the callback on a state: the buffer, if it holds text.
  The data of a tagged frame: \<^verbatim>\<open>data.get('data', {})\<close>, when \<^verbatim>\<open>data\<close> is a dict.
\<close>

definition pending :: "relay_state \<Rightarrow> sink_event list" where
  "pending s = (if token_buffer s = [] then [] else [Message (token_buffer s)])"

definition tagged :: "(json \<Rightarrow> sink_event) \<Rightarrow> json \<Rightarrow> sink_event list" where
  "tagged mk data = (case py_get data ''data'' (JDict []) of Inl e \<Rightarrow> [] | Inr d \<Rightarrow> [mk d])"

fun result_state :: "result \<Rightarrow> relay_state" where
  "result_state (Returned s) = s"
| "result_state (Raised e s) = s"

fun step_state :: "step \<Rightarrow> relay_state" where
  "step_state (Continue s) = s"
| "step_state (Break s) = s"
| "step_state (Abort e s) = s"

subsection \<open>Sample inputs\<close>

text \<open>
  The frames of the examples, with what \<^verbatim>\<open>json.loads\<close> does on each, and a decoder
  that knows these frames and raises \<^verbatim>\<open>JSONDecodeError\<close> on any other string.
\<close>

definition frame_He :: string where
  \<open>frame_He = ''{"choices":[{"delta":{"content":"He"}}]}''\<close>

definition frame_llo :: string where
  \<open>frame_llo = ''{"choices":[{"delta":{"content":"llo"}}]}''\<close>

definition frame_searching :: string where
  \<open>frame_searching = ''{"data":{"phase":"searching"}}''\<close>

definition frame_true :: string where
  \<open>frame_true = ''{"choices": true}''\<close>

definition token_frame :: "string \<Rightarrow> json" where
  "token_frame t = JDict [(''choices'', JList [JDict [(''delta'', JDict [(''content'', JStr t)])]])]"

definition frame_bad :: string where
  "frame_bad = ''{bad''"

definition sample_frames :: "(string \<times> (exn + json)) list" where
  "sample_frames =
     [(frame_He, Inr (token_frame ''He'')),
      (frame_llo, Inr (token_frame ''llo'')),
      (frame_searching, Inr (JDict [(''data'', JDict [(''phase'', JStr ''searching'')])])),
      (frame_true, Inr (JDict [(''choices'', JBool True)])),
      (frame_bad, Inl (JSONDecodeError
         ''Expecting property name enclosed in double quotes: line 1 column 2 (char 1)''))]"

definition sample_loads :: "string \<Rightarrow> exn + json" where
  "sample_loads d =
     (case map_of sample_frames d of
        Some r \<Rightarrow> r
      | None \<Rightarrow> Inl (JSONDecodeError ''Expecting value: line 1 column 1 (char 0)''))"

text \<open>
  A response with the given lines that ends, a callback that always returns, a clock that
  advances by 1/128 s per reading, and a transport that answers every request with status
  200. The readings and their differences are doubles, so on them the subtraction of
  floats is the exact one.
\<close>

definition sample_response :: "string list \<Rightarrow> response" where
  "sample_response ls = \<lparr>status_code = 200, body_lines = ls, body_error = None\<rparr>"

definition sample_env :: "string list \<Rightarrow> env" where
  "sample_env ls =
     \<lparr>loads = sample_loads,
      event_emitter = Some (\<lambda>delivered ev. None),
      monotonic = (\<lambda>n. real n / 128),
      float_sub = (\<lambda>a b. a - b),
      transport = (\<lambda>req. Inr (sample_response ls))\<rparr>"

definition sample_valves :: valves where
  "sample_valves = \<lparr>TOOLSET_API_URL = ''http://localhost:3000'', TOOLSET_API_KEY = ''secret''\<rparr>"

definition sample_state :: "string option \<Rightarrow> string \<Rightarrow> relay_state" where
  "sample_state tag buf =
     \<lparr>current_event = tag, token_buffer = buf, last_flush = 0, sink = [], clock_reads = 1\<rparr>"

text \<open>
  A payload of 100000 opening brackets: \<^verbatim>\<open>json.loads\<close> gives up on it with a
  \<^verbatim>\<open>RecursionError\<close>, which is not a \<^verbatim>\<open>JSONDecodeError\<close>. The decoder \<open>deep_loads\<close>
  does so and decodes the other frames as \<open>sample_loads\<close>; \<open>deep_env\<close> answers with
  this payload, a token frame and the sentinel.
\<close>

definition frame_deep :: string where
  "frame_deep = replicate 100000 (CHR ''['')"

definition deep_loads :: "string \<Rightarrow> exn + json" where
  "deep_loads d =
     (if d = frame_deep then
        Inl (OtherException ''RecursionError''
          ''maximum recursion depth exceeded while decoding a JSON array from a unicode string'')
      else sample_loads d)"

definition deep_lines :: "string list" where
  "deep_lines = [''data: '' @ frame_deep, ''data: '' @ frame_He, ''data: [DONE]'']"

definition deep_env :: env where
  "deep_env = (sample_env deep_lines)\<lparr>loads := deep_loads\<rparr>"

text \<open>
  Three bodies: two token frames and the sentinel; two token frames and no sentinel; a
  token frame, a frame whose \<^verbatim>\<open>choices\<close> is \<^verbatim>\<open>true\<close>, a token frame and the sentinel.
\<close>

definition hello_lines :: "string list" where
  "hello_lines = [''data: '' @ frame_He, ''data: '' @ frame_llo, ''data: [DONE]'']"

definition open_lines :: "string list" where
  "open_lines = [''data: '' @ frame_He, ''data: '' @ frame_llo]"

definition ill_lines :: "string list" where
  "ill_lines =
     [''data: '' @ frame_He, ''data: '' @ frame_true, ''data: '' @ frame_llo, ''data: [DONE]'']"

text \<open>
  A transport that raises the timeout of a phase on every request, and two whose
  response yields one token frame and then raises: a read timeout, and the
  \<^verbatim>\<open>CancelledError\<close> that asyncio raises in a cancelled task.
\<close>

definition timeout_env :: "timeout_phase \<Rightarrow> env" where
  "timeout_env p = (sample_env [])\<lparr>transport := (\<lambda>req. Inl (TimeoutException p))\<rparr>"

definition broken_response :: "exn \<Rightarrow> response" where
  "broken_response e =
     \<lparr>status_code = 200, body_lines = [''data: '' @ frame_He], body_error = Some e\<rparr>"

definition read_timeout_env :: env where
  "read_timeout_env =
     (sample_env [])\<lparr>transport := (\<lambda>req. Inr (broken_response (TimeoutException ReadTimeout)))\<rparr>"

definition cancelled_env :: env where
  "cancelled_env =
     (sample_env [])\<lparr>transport := (\<lambda>req. Inr (broken_response (BaseExc ''CancelledError'')))\<rparr>"

section \<open>Properties\<close>

declare str_nat.simps [simp del]

subsection \<open>Lines that are neither tags nor data\<close>

text \<open>
  C9. A line which, once stripped as line 209 does, starts with neither \<^verbatim>\<open>event: \<close> nor
  \<^verbatim>\<open>data: \<close> leaves the whole state as it was: the tag, the buffer, the time of the last
  flush, the calls made to the callback and the clock readings taken. So does a line that
  is empty once stripped.
\<close>

theorem other_line_ignored:
  "(\<not> startswith (strip raw) ''event: '' \<and> \<not> startswith (strip raw) ''data: ''
      \<longrightarrow> process_line env s raw = Continue s)
   \<and> (strip raw = [] \<longrightarrow> process_line env s raw = Continue s)"
  by (simp add: process_line_def Let_def)

theorem other_line_ignored_witness:
  "\<not> startswith (strip '': keep-alive'') ''event: ''
   \<and> \<not> startswith (strip '': keep-alive'') ''data: ''
   \<and> process_line (sample_env []) (sample_state (Some ''status'') ''He'') '': keep-alive''
       = Continue (sample_state (Some ''status'') ''He'')
   \<and> strip ''  '' = []
   \<and> process_line (sample_env []) (sample_state (Some ''status'') ''He'') ''  ''
       = Continue (sample_state (Some ''status'') ''He'')"
  using other_line_ignored [of "'': keep-alive''" "sample_env []" "sample_state (Some ''status'') ''He''"]
    other_line_ignored [of "''  ''" "sample_env []" "sample_state (Some ''status'') ''He''"]
  by (simp add: strip_def is_space_def startswith_def)

lemmas sample_defs =
  sample_env_def sample_response_def sample_valves_def sample_state_def sample_loads_def
  sample_frames_def token_frame_def frame_He_def frame_llo_def frame_searching_def
  frame_true_def frame_bad_def hello_lines_def open_lines_def ill_lines_def
  timeout_env_def broken_response_def read_timeout_env_def cancelled_env_def

lemmas string_defs = strip_def is_space_def startswith_def

subsection \<open>Flushing\<close>

text \<open>
  C6. A flush that returns leaves a state on which a second flush changes nothing and
  calls nothing: both calls together hand the callback at most one Message, the buffer
  as it was before the first. A flush on an empty buffer returns the state as it is: no
  call of the callback, and the time of the last flush stays. This holds at every call
  of \<^verbatim>\<open>flush_buffer\<close>, the one of line 239 included.
\<close>

theorem flush_idempotent:
  "(flush_buffer env s = Returned s1 \<longrightarrow>
      flush_buffer env s1 = Returned s1
      \<and> (sink s1 = sink s \<or> sink s1 = sink s @ [Message (token_buffer s)]))
   \<and> (token_buffer s = [] \<longrightarrow> flush_buffer env s = Returned s)"
  by (auto simp: flush_buffer_def call_emitter_def split: option.splits if_splits)

theorem flush_idempotent_witness:
  "flush_buffer (sample_env []) (sample_state None ''Hello'')
     = Returned \<lparr>current_event = None, token_buffer = [], last_flush = 1 / 128,
                 sink = [Message ''Hello''], clock_reads = 2\<rparr>
   \<and> flush_buffer (sample_env [])
        \<lparr>current_event = None, token_buffer = [], last_flush = 1 / 128,
         sink = [Message ''Hello''], clock_reads = 2\<rparr>
     = Returned \<lparr>current_event = None, token_buffer = [], last_flush = 1 / 128,
                 sink = [Message ''Hello''], clock_reads = 2\<rparr>
   \<and> token_buffer (sample_state None []) = []
   \<and> flush_buffer (sample_env []) (sample_state None []) = Returned (sample_state None [])"
  using flush_idempotent [of "sample_env []" "sample_state None ''Hello''"
      "\<lparr>current_event = None, token_buffer = [], last_flush = 1 / 128,
        sink = [Message ''Hello''], clock_reads = 2\<rparr>"]
    flush_idempotent [of "sample_env []" "sample_state None []" "sample_state None []"]
  by (simp add: flush_buffer_def call_emitter_def sample_env_def sample_state_def)

subsection \<open>Configuration\<close>

text \<open>
  C7. With an empty \<^verbatim>\<open>TOOLSET_API_URL\<close> or an empty \<^verbatim>\<open>TOOLSET_API_KEY\<close>, \<^verbatim>\<open>pipe\<close>
  returns the configuration error of lines 133 and 135, the transport has received no
  request and the callback no event.
\<close>

theorem missing_configuration:
  "TOOLSET_API_URL v = [] \<or> TOOLSET_API_KEY v = [] \<Longrightarrow>
   requests (pipe env v payload) = []
   \<and> events (pipe env v payload) = []
   \<and> returned (pipe env v payload) =
       Inr (if TOOLSET_API_URL v = [] then ''Error: TOOLSET_API_URL not configured''
            else ''Error: TOOLSET_API_KEY not configured'')"
  by (auto simp: pipe_def)

theorem missing_configuration_witness:
  "(TOOLSET_API_URL (sample_valves\<lparr>TOOLSET_API_KEY := []\<rparr>) = []
      \<or> TOOLSET_API_KEY (sample_valves\<lparr>TOOLSET_API_KEY := []\<rparr>) = [])
   \<and> requests (pipe (sample_env [''data: [DONE]'']) (sample_valves\<lparr>TOOLSET_API_KEY := []\<rparr>) JNull) = []
   \<and> events (pipe (sample_env [''data: [DONE]'']) (sample_valves\<lparr>TOOLSET_API_KEY := []\<rparr>) JNull) = []
   \<and> returned (pipe (sample_env [''data: [DONE]'']) (sample_valves\<lparr>TOOLSET_API_KEY := []\<rparr>) JNull)
       = Inr ''Error: TOOLSET_API_KEY not configured''"
  using missing_configuration [of "sample_valves\<lparr>TOOLSET_API_KEY := []\<rparr>" "sample_env [''data: [DONE]'']" JNull]
  by (simp add: sample_valves_def)

subsection \<open>Data lines\<close>

text \<open>What a data line other than the sentinel does, in terms of the \<^verbatim>\<open>try\<close> body.\<close>

lemma data_line:
  assumes "strip raw = ''data: '' @ d" and "d \<noteq> ''[DONE]''"
  shows "process_line env s raw =
     (case handle_data env s d of
        Returned s1 \<Rightarrow> Continue (s1\<lparr>current_event := None\<rparr>)
      | Raised (JSONDecodeError m) s1 \<Rightarrow> Continue (s1\<lparr>current_event := None\<rparr>)
      | Raised e s1 \<Rightarrow> Abort e s1)"
  using assms by (simp add: process_line_def Let_def startswith_def)

text \<open>
  C4, as the code has it. A data line whose payload \<^verbatim>\<open>json.loads\<close> rejects with a
  \<^verbatim>\<open>JSONDecodeError\<close> changes the tag to \<^verbatim>\<open>None\<close> and nothing else: no call of the
  callback, no exception, and the loop goes on with the lines that follow.
\<close>

theorem malformed_frame_skipped:
  assumes "strip raw = ''data: '' @ d" and "d \<noteq> ''[DONE]''"
    and "loads env d = Inl (JSONDecodeError m)"
  shows "process_line env s raw = Continue (s\<lparr>current_event := None\<rparr>)
     \<and> run_lines env s (raw # rest) = run_lines env (s\<lparr>current_event := None\<rparr>) rest"
  using assms by (simp add: data_line handle_data_def)

theorem malformed_frame_skipped_witness:
  "strip ''data: {bad'' = ''data: '' @ ''{bad'' \<and> ''{bad'' \<noteq> ''[DONE]''
   \<and> loads (sample_env []) ''{bad'' = Inl (JSONDecodeError
        ''Expecting property name enclosed in double quotes: line 1 column 2 (char 1)'')
   \<and> process_line (sample_env []) (sample_state (Some ''status'') ''He'') ''data: {bad''
       = Continue (sample_state None ''He'')
   \<and> run_lines (sample_env []) (sample_state (Some ''status'') ''He'') [''data: {bad'', ''data: [DONE]'']
       = run_lines (sample_env []) (sample_state None ''He'') [''data: [DONE]'']"
  using malformed_frame_skipped [of "''data: {bad''" "''{bad''" "sample_env []"
      "''Expecting property name enclosed in double quotes: line 1 column 2 (char 1)''"
      "sample_state (Some ''status'') ''He''" "[''data: [DONE]'']"]
  by (simp add: string_defs sample_defs)

text \<open>A line that is not empty and has no space at either end is its own strip.\<close>

lemma strip_unchanged:
  assumes "s \<noteq> []" and "\<not> is_space (hd s)" and "\<not> is_space (last s)"
  shows "strip s = s"
proof -
  have "dropWhile is_space s = s"
    using assms(1,2) by (simp add: dropWhile_eq_self_iff)
  moreover have "dropWhile is_space (rev s) = rev s"
    using assms(1,3) by (simp add: dropWhile_eq_self_iff hd_rev)
  ultimately show ?thesis
    by (simp add: strip_def)
qed

lemma deep_line_strip: "strip (''data: '' @ frame_deep) = ''data: '' @ frame_deep"
proof -
  have "frame_deep \<noteq> []"
    by (simp add: frame_deep_def)
  then have "last (''data: '' @ frame_deep) = CHR ''[''"
    by (simp add: frame_deep_def)
  then show ?thesis
    by (intro strip_unchanged) (simp_all add: is_space_def)
qed

lemma deep_frame_not_done: "frame_deep \<noteq> ''[DONE]''"
proof -
  have "length frame_deep \<noteq> length ''[DONE]''"
    by (simp add: frame_deep_def)
  then show ?thesis
    by metis
qed

text \<open>
  C4, as the claim states it, fails: a payload can fail to parse with an exception that
  is not a \<^verbatim>\<open>JSONDecodeError\<close>, which line 235 does not catch. On the payload of 100000
  opening brackets the line leaves the loop with the \<^verbatim>\<open>RecursionError\<close>; the token frame
  and the sentinel after it are not read, the callback receives nothing, and \<^verbatim>\<open>pipe\<close>
  returns the error string of line 248.
\<close>

theorem undecodable_frame_aborts:
  "loads deep_env frame_deep
       = Inl (OtherException ''RecursionError''
          ''maximum recursion depth exceeded while decoding a JSON array from a unicode string'')
   \<and> process_line deep_env (initial_state deep_env) (''data: '' @ frame_deep)
       = Abort (OtherException ''RecursionError''
            ''maximum recursion depth exceeded while decoding a JSON array from a unicode string'')
          (initial_state deep_env)
   \<and> body_lines (sample_response deep_lines)
       = [''data: '' @ frame_deep, ''data: '' @ frame_He, ''data: [DONE]'']
   \<and> events (pipe deep_env sample_valves JNull) = []
   \<and> returned (pipe deep_env sample_valves JNull)
       = Inr (''Error: '' @
          ''maximum recursion depth exceeded while decoding a JSON array from a unicode string'')"
proof -
  let ?e = "OtherException ''RecursionError''
    ''maximum recursion depth exceeded while decoding a JSON array from a unicode string''"
  have ld: "loads deep_env frame_deep = Inl ?e"
    by (simp add: deep_env_def deep_loads_def sample_env_def)
  then have "handle_data deep_env (initial_state deep_env) frame_deep
      = Raised ?e (initial_state deep_env)"
    by (simp add: handle_data_def)
  then have step: "process_line deep_env (initial_state deep_env) (''data: '' @ frame_deep)
      = Abort ?e (initial_state deep_env)"
    using data_line [OF deep_line_strip deep_frame_not_done, of deep_env "initial_state deep_env"] by simp
  then have "run_lines deep_env (initial_state deep_env) deep_lines
      = Aborted ?e (initial_state deep_env)"
    by (simp add: deep_lines_def del: append.simps)
  then have "relay deep_env (sample_response deep_lines) = Raised ?e (initial_state deep_env)"
    by (simp add: relay_def sample_response_def)
  then have "pipe deep_env sample_valves JNull
      = \<lparr>returned = handle_exception sample_valves ?e,
         requests = [build_request sample_valves JNull],
         events = sink (initial_state deep_env)\<rparr>"
    by (simp add: pipe_def deep_env_def sample_env_def sample_valves_def raise_for_status_def
        sample_response_def Let_def)
  with ld step show ?thesis
    by (simp add: initial_state_def sample_response_def deep_lines_def del: append.simps)
qed

subsection \<open>Tagged frames\<close>

lemma flush_buffer_returned:
  assumes "flush_buffer env s = Returned s1"
  shows "current_event s1 = current_event s"
    and "event_emitter env \<noteq> None \<Longrightarrow> sink s1 = sink s @ pending s \<and> token_buffer s1 = []"
    and "event_emitter env = None \<Longrightarrow> s1 = s"
  using assms
  by (auto simp: flush_buffer_def call_emitter_def pending_def split: option.splits if_splits)

lemma flush_buffer_raised:
  assumes "flush_buffer env s = Raised e s1"
  shows "sink s1 = sink s @ pending s"
  using assms
  by (auto simp: flush_buffer_def call_emitter_def pending_def split: option.splits if_splits)

lemma emit_tagged_sink:
  assumes "event_emitter env = Some em"
  shows "\<exists>new. sink (result_state (emit_tagged env em mk data s)) = sink s @ new
            \<and> prefix new (pending s @ tagged mk data)"
proof (cases "flush_buffer env s")
  case (Raised e s1)
  then show ?thesis
    by (simp add: emit_tagged_def flush_buffer_raised)
next
  case (Returned s1)
  with assms have s1: "sink s1 = sink s @ pending s"
    by (simp add: flush_buffer_returned)
  show ?thesis
  proof (cases "py_get data ''data'' (JDict [])")
    case (Inl e)
    with Returned s1 show ?thesis by (simp add: emit_tagged_def tagged_def)
  next
    case (Inr d)
    with Returned s1 show ?thesis
      by (simp add: emit_tagged_def tagged_def call_emitter_def split: option.splits)
  qed
qed

lemma emit_tagged_returns:
  assumes "event_emitter env = Some em" and "\<forall>delivered ev. em delivered ev = None"
    and "py_get data ''data'' (JDict []) = Inr d"
  shows "\<exists>s1. emit_tagged env em mk data s = Returned s1 \<and> sink s1 = sink s @ pending s @ [mk d]
            \<and> token_buffer s1 = []"
  using assms
  by (simp add: emit_tagged_def flush_buffer_def call_emitter_def pending_def)

lemma handle_data_tagged:
  assumes "loads env d = Inr data"
    and "(current_event s = Some ''status'' \<and> mk = Status)
         \<or> (current_event s = Some ''source'' \<and> mk = Citation)"
  shows "event_emitter env = Some em \<Longrightarrow> handle_data env s d = emit_tagged env em mk data s"
    and "event_emitter env = None \<Longrightarrow> result_state (handle_data env s d) = s"
  using assms by (auto simp: handle_data_def split: sum.splits)

lemma data_line_state:
  assumes "strip raw = ''data: '' @ d" and "d \<noteq> ''[DONE]''"
  shows "sink (step_state (process_line env s raw)) = sink (result_state (handle_data env s d))"
  using assms by (simp add: data_line split: result.splits exn.splits)

text \<open>
  C2. A data line processed under the tag \<^verbatim>\<open>status\<close> (resp. \<^verbatim>\<open>source\<close>) adds to the
  calls of the callback a prefix of: the Message holding the text buffered by earlier
  frames, if any, then the Status (resp. Citation) event. So the tagged event never
  comes before that text, whatever the callback does and whether one is registered. When
  the callback returns and \<^verbatim>\<open>data\<close> is a dict, the line adds exactly these events, in
  this order, and leaves the buffer empty and the tag cleared.
\<close>

theorem tagged_event_after_tokens:
  assumes "strip raw = ''data: '' @ d" and "d \<noteq> ''[DONE]''" and "loads env d = Inr data"
    and "(current_event s = Some ''status'' \<and> mk = Status)
         \<or> (current_event s = Some ''source'' \<and> mk = Citation)"
  shows "(\<exists>new. sink (step_state (process_line env s raw)) = sink s @ new
             \<and> prefix new (pending s @ tagged mk data))
     \<and> (\<forall>em v. event_emitter env = Some em \<and> (\<forall>delivered ev. em delivered ev = None)
             \<and> py_get data ''data'' (JDict []) = Inr v \<longrightarrow>
           (\<exists>s1. process_line env s raw = Continue s1
              \<and> sink s1 = sink s @ pending s @ [mk v]
              \<and> token_buffer s1 = [] \<and> current_event s1 = None))"
proof (intro conjI allI impI)
  show "\<exists>new. sink (step_state (process_line env s raw)) = sink s @ new
             \<and> prefix new (pending s @ tagged mk data)"
  proof (cases "event_emitter env")
    case None
    with assms show ?thesis
      by (simp add: data_line_state handle_data_tagged(2))
  next
    case (Some em)
    with assms show ?thesis
      by (simp add: data_line_state handle_data_tagged(1) [where mk = mk] emit_tagged_sink)
  qed
next
  fix em v
  assume h: "event_emitter env = Some em \<and> (\<forall>delivered ev. em delivered ev = None)
             \<and> py_get data ''data'' (JDict []) = Inr v"
  then obtain s1 where s1: "emit_tagged env em mk data s = Returned s1"
      "sink s1 = sink s @ pending s @ [mk v]" "token_buffer s1 = []"
    using emit_tagged_returns [of env em data v mk s] by blast
  from h assms have "handle_data env s d = Returned s1"
    by (simp add: handle_data_tagged(1) [where mk = mk] s1)
  with assms have "process_line env s raw = Continue (s1\<lparr>current_event := None\<rparr>)"
    by (simp add: data_line)
  with s1 show "\<exists>s1. process_line env s raw = Continue s1
              \<and> sink s1 = sink s @ pending s @ [mk v]
              \<and> token_buffer s1 = [] \<and> current_event s1 = None"
    by simp
qed

theorem tagged_event_after_tokens_witness:
  "strip (''data: '' @ frame_searching) = ''data: '' @ frame_searching
   \<and> frame_searching \<noteq> ''[DONE]''
   \<and> loads (sample_env []) frame_searching
       = Inr (JDict [(''data'', JDict [(''phase'', JStr ''searching'')])])
   \<and> current_event (sample_state (Some ''status'') ''He'') = Some ''status''
   \<and> pending (sample_state (Some ''status'') ''He'') = [Message ''He'']
   \<and> process_line (sample_env []) (sample_state (Some ''status'') ''He'')
         (''data: '' @ frame_searching)
       = Continue \<lparr>current_event = None, token_buffer = [], last_flush = 1 / 128,
                   sink = [Message ''He'', Status (JDict [(''phase'', JStr ''searching'')])],
                   clock_reads = 2\<rparr>"
  using tagged_event_after_tokens [of "''data: '' @ frame_searching" frame_searching "sample_env []"
      "JDict [(''data'', JDict [(''phase'', JStr ''searching'')])]"
      "sample_state (Some ''status'') ''He''" Status]
  by (simp add: string_defs sample_defs process_line_def handle_data_def emit_tagged_def
      flush_buffer_def call_emitter_def pending_def Let_def)

subsection \<open>The whole call\<close>

lemma relay_exhausted:
  assumes "run_lines env (initial_state env) (body_lines r) = Exhausted s"
    and "body_error r = None"
  shows "relay env r = flush_buffer env s"
  using assms by (simp add: relay_def)

lemma pipe_streaming:
  assumes "TOOLSET_API_URL v \<noteq> []" and "TOOLSET_API_KEY v \<noteq> []"
    and "transport env (build_request v payload) = Inr r" and "raise_for_status r = None"
  shows "pipe env v payload =
     (case relay env r of
        Returned s \<Rightarrow>
          \<lparr>returned = Inr [], requests = [build_request v payload], events = sink s\<rparr>
      | Raised e s \<Rightarrow>
          \<lparr>returned = handle_exception v e, requests = [build_request v payload],
           events = sink s\<rparr>)"
  using assms by (simp add: pipe_def Let_def)

lemma run_lines_append:
  assumes "run_lines env s pre = Exhausted s1"
  shows "run_lines env s (pre @ ls) = run_lines env s1 ls"
  using assms
  by (induction pre arbitrary: s) (auto split: step.splits)

text \<open>
  C1. The body starts with a data line whose payload decodes to a frame with content
  \<^verbatim>\<open>He\<close>, a data line whose payload decodes to a frame with content \<^verbatim>\<open>llo\<close>, and the
  sentinel; a callback is registered and accepts the Message; at both appends the test
  of line 232 is false: the float \<^verbatim>\<open>time.monotonic() - last_flush\<close> is below the float
  \<^verbatim>\<open>0.05\<close>, where \<^verbatim>\<open>last_flush\<close> is the reading taken at the start of the stream (no
  tag is set then, and no flush has happened). Then the callback is called exactly once,
  with the Message \<^verbatim>\<open>Hello\<close>, and \<^verbatim>\<open>pipe\<close> returns the empty string.
\<close>

theorem two_tokens_one_message:
  assumes "TOOLSET_API_URL v \<noteq> []" and "TOOLSET_API_KEY v \<noteq> []"
    and "transport env (build_request v payload) = Inr r" and "raise_for_status r = None"
    and "body_lines r = raw1 # raw2 # raw3 # rest"
    and "strip raw1 = ''data: '' @ d1" and "d1 \<noteq> ''[DONE]''" and "loads env d1 = Inr data1"
    and "py_get data1 ''choices'' JNull = Inr choices1" and "truthy choices1"
    and "delta_content data1 = Inr (JStr ''He'')"
    and "strip raw2 = ''data: '' @ d2" and "d2 \<noteq> ''[DONE]''" and "loads env d2 = Inr data2"
    and "py_get data2 ''choices'' JNull = Inr choices2" and "truthy choices2"
    and "delta_content data2 = Inr (JStr ''llo'')"
    and "strip raw3 = ''data: [DONE]''"
    and "event_emitter env = Some em" and "em [] (Message ''Hello'') = None"
    and "float_sub env (monotonic env 1) (monotonic env 0) < FLUSH_INTERVAL"
    and "float_sub env (monotonic env 2) (monotonic env 0) < FLUSH_INTERVAL"
  shows "events (pipe env v payload) = [Message ''Hello'']
     \<and> returned (pipe env v payload) = Inr []"
proof -
  let ?s0 = "initial_state env"
  let ?s1 = "?s0\<lparr>token_buffer := ''He'', clock_reads := 2\<rparr>"
  let ?s2 = "?s0\<lparr>token_buffer := ''Hello'', clock_reads := 3\<rparr>"
  let ?s3 = "?s0\<lparr>token_buffer := [], clock_reads := 4, last_flush := monotonic env 3,
                  sink := [Message ''Hello'']\<rparr>"
  have "handle_data env ?s0 d1 = Returned ?s1"
    using assms(8-11) \<open>event_emitter env = Some em\<close>
      \<open>float_sub env (monotonic env 1) (monotonic env 0) < FLUSH_INTERVAL\<close>
    by (simp add: handle_data_def append_token_def initial_state_def Let_def)
  then have l1: "process_line env ?s0 raw1 = Continue ?s1"
    using assms(6,7) by (simp add: data_line initial_state_def)
  have "handle_data env ?s1 d2 = Returned ?s2"
    using assms(14-17) \<open>event_emitter env = Some em\<close>
      \<open>float_sub env (monotonic env 2) (monotonic env 0) < FLUSH_INTERVAL\<close>
    by (simp add: handle_data_def append_token_def initial_state_def Let_def)
  then have l2: "process_line env ?s1 raw2 = Continue ?s2"
    using assms(12,13) by (simp add: data_line initial_state_def)
  have l3: "process_line env ?s2 raw3 = Break ?s3"
    using \<open>strip raw3 = ''data: [DONE]''\<close> \<open>event_emitter env = Some em\<close>
      \<open>em [] (Message ''Hello'') = None\<close>
    by (simp add: process_line_def flush_buffer_def call_emitter_def initial_state_def
        startswith_def Let_def)
  have "run_lines env ?s0 (body_lines r) = Broke ?s3"
    by (simp add: assms(5) l1 l2 l3)
  then have "relay env r = Returned ?s3"
    using \<open>event_emitter env = Some em\<close>
    by (simp add: relay_def flush_buffer_def initial_state_def)
  then show ?thesis
    using assms(1-4) by (simp add: pipe_streaming initial_state_def)
qed

theorem two_tokens_one_message_witness:
  "TOOLSET_API_URL sample_valves \<noteq> [] \<and> TOOLSET_API_KEY sample_valves \<noteq> []
   \<and> transport (sample_env hello_lines) (build_request sample_valves JNull)
       = Inr (sample_response hello_lines)
   \<and> raise_for_status (sample_response hello_lines) = None
   \<and> body_lines (sample_response hello_lines)
       = [''data: '' @ frame_He, ''data: '' @ frame_llo, ''data: [DONE]'']
   \<and> loads (sample_env hello_lines) frame_He = Inr (token_frame ''He'')
   \<and> delta_content (token_frame ''He'') = Inr (JStr ''He'')
   \<and> loads (sample_env hello_lines) frame_llo = Inr (token_frame ''llo'')
   \<and> delta_content (token_frame ''llo'') = Inr (JStr ''llo'')
   \<and> float_sub (sample_env hello_lines)
         (monotonic (sample_env hello_lines) 1) (monotonic (sample_env hello_lines) 0)
       < FLUSH_INTERVAL
   \<and> float_sub (sample_env hello_lines)
         (monotonic (sample_env hello_lines) 2) (monotonic (sample_env hello_lines) 0)
       < FLUSH_INTERVAL
   \<and> events (pipe (sample_env hello_lines) sample_valves JNull) = [Message ''Hello'']
   \<and> returned (pipe (sample_env hello_lines) sample_valves JNull) = Inr []"
  using two_tokens_one_message [where v = sample_valves and env = "sample_env hello_lines"
      and payload = JNull and r = "sample_response hello_lines"
      and ?raw1.0 = "''data: '' @ frame_He" and ?d1.0 = frame_He
      and ?data1.0 = "token_frame ''He''"
      and ?choices1.0 = "JList [JDict [(''delta'', JDict [(''content'', JStr ''He'')])]]"
      and ?raw2.0 = "''data: '' @ frame_llo" and ?d2.0 = frame_llo
      and ?data2.0 = "token_frame ''llo''"
      and ?choices2.0 = "JList [JDict [(''delta'', JDict [(''content'', JStr ''llo'')])]]"
      and ?raw3.0 = "''data: [DONE]''" and rest = "[]" and em = "\<lambda>delivered ev. None"]
  by (simp add: sample_defs string_defs raise_for_status_def FLUSH_INTERVAL_def
      delta_content_def and_then_def)

text \<open>Without a callback nothing is ever appended to the buffer.\<close>

lemma no_emitter_handle_data:
  assumes "event_emitter env = None"
  shows "token_buffer (result_state (handle_data env s d)) = token_buffer s"
  using assms by (simp add: handle_data_def split: sum.splits)

lemma no_emitter_process_line:
  assumes "event_emitter env = None"
  shows "token_buffer (step_state (process_line env s raw)) = token_buffer s"
proof -
  have f: "flush_buffer env s = Returned s"
    using assms by (simp add: flush_buffer_def)
  have "token_buffer (step_state (case handle_data env s d of
        Returned s1 \<Rightarrow> Continue (s1\<lparr>current_event := None\<rparr>)
      | Raised (JSONDecodeError m) s1 \<Rightarrow> Continue (s1\<lparr>current_event := None\<rparr>)
      | Raised e s1 \<Rightarrow> Abort e s1)) = token_buffer s" for d
    using no_emitter_handle_data [OF assms, of s d]
    by (cases "handle_data env s d") (simp_all split: exn.splits)
  with f show ?thesis
    by (simp add: process_line_def Let_def)
qed

lemma no_emitter_run_lines:
  assumes "event_emitter env = None" and "run_lines env s ls = Exhausted s1"
  shows "token_buffer s1 = token_buffer s"
  using assms(2)
proof (induction ls arbitrary: s)
  case Nil
  then show ?case by simp
next
  case (Cons l ls)
  from Cons.prems obtain s2 where st: "process_line env s l = Continue s2"
      and rest: "run_lines env s2 ls = Exhausted s1"
    by (auto split: step.splits)
  from no_emitter_process_line [OF assms(1), of s l] st
  have "token_buffer s2 = token_buffer s" by simp
  with Cons.IH [OF rest] show ?case by simp
qed

text \<open>
  C3. The loop consumes every line of the body without meeting the sentinel and without
  an exception, and the body ends (the line source does not raise); \<open>s\<close> is the state
  then. The final flush of line 239 hands the callback one Message holding the buffer
  of \<open>s\<close> if the buffer holds text, and nothing if it is empty, and \<^verbatim>\<open>pipe\<close> returns the
  empty string. The callback is taken to accept that Message; without a callback the
  buffer of \<open>s\<close> is empty.
\<close>

theorem exhausted_stream_final_flush:
  assumes "TOOLSET_API_URL v \<noteq> []" and "TOOLSET_API_KEY v \<noteq> []"
    and "transport env (build_request v payload) = Inr r" and "raise_for_status r = None"
    and "run_lines env (initial_state env) (body_lines r) = Exhausted s"
    and "body_error r = None"
    and "\<forall>em. event_emitter env = Some em \<longrightarrow> em (sink s) (Message (token_buffer s)) = None"
  shows "events (pipe env v payload) = sink s @ pending s
     \<and> returned (pipe env v payload) = Inr []"
proof (cases "event_emitter env")
  case None
  with assms(5) have "token_buffer s = []"
    using no_emitter_run_lines [of env "initial_state env" "body_lines r" s]
    by (simp add: initial_state_def)
  moreover have "relay env r = Returned s"
    using assms(5,6) None by (simp add: relay_exhausted flush_buffer_def)
  ultimately show ?thesis
    using assms(1-4) by (simp add: pipe_streaming pending_def)
next
  case (Some em)
  with assms(7) have ok: "em (sink s) (Message (token_buffer s)) = None"
    by simp
  have "\<exists>s1. relay env r = Returned s1 \<and> sink s1 = sink s @ pending s"
    using assms(5,6) Some ok
    by (simp add: relay_exhausted flush_buffer_def call_emitter_def pending_def)
  then show ?thesis
    using assms(1-4) by (auto simp: pipe_streaming)
qed

theorem exhausted_stream_final_flush_witness:
  "TOOLSET_API_URL sample_valves \<noteq> [] \<and> TOOLSET_API_KEY sample_valves \<noteq> []
   \<and> transport (sample_env open_lines) (build_request sample_valves JNull)
       = Inr (sample_response open_lines)
   \<and> raise_for_status (sample_response open_lines) = None
   \<and> body_error (sample_response open_lines) = None
   \<and> run_lines (sample_env open_lines) (initial_state (sample_env open_lines))
        (body_lines (sample_response open_lines))
       = Exhausted \<lparr>current_event = None, token_buffer = ''Hello'', last_flush = 0,
                    sink = [], clock_reads = 3\<rparr>
   \<and> events (pipe (sample_env open_lines) sample_valves JNull) = [Message ''Hello'']
   \<and> returned (pipe (sample_env open_lines) sample_valves JNull) = Inr []"
proof -
  let ?s = "\<lparr>current_event = None, token_buffer = ''Hello'', last_flush = 0,
             sink = [], clock_reads = 3\<rparr>"
  have run: "run_lines (sample_env open_lines) (initial_state (sample_env open_lines))
      (body_lines (sample_response open_lines)) = Exhausted ?s"
    by (simp add: sample_defs string_defs initial_state_def process_line_def handle_data_def
        append_token_def delta_content_def and_then_def FLUSH_INTERVAL_def Let_def)
  show ?thesis
    using exhausted_stream_final_flush [of sample_valves "sample_env open_lines" JNull
        "sample_response open_lines" ?s] run
    by (simp add: sample_defs raise_for_status_def pending_def)
qed

text \<open>
  C10. A data line whose payload decodes to a dict with a truthy \<^verbatim>\<open>choices\<close> on which
  line 229 raises (here: \<^verbatim>\<open>{"choices": true}\<close>, a \<^verbatim>\<open>TypeError\<close>), read with a callback
  registered and under no \<^verbatim>\<open>status\<close> or \<^verbatim>\<open>source\<close> tag. The exception is not a
  \<^verbatim>\<open>JSONDecodeError\<close>, so it leaves the loop: the lines after it are not read, the final
  flush does not run (the callback has received what it had received before the line,
  whatever the buffer holds), and \<^verbatim>\<open>pipe\<close> returns \<^verbatim>\<open>Error: \<close> followed by the text of
  the exception.
\<close>

theorem ill_shaped_frame_aborts:
  assumes "TOOLSET_API_URL v \<noteq> []" and "TOOLSET_API_KEY v \<noteq> []"
    and "transport env (build_request v payload) = Inr r" and "raise_for_status r = None"
    and "body_lines r = pre @ raw # rest"
    and "run_lines env (initial_state env) pre = Exhausted s"
    and "current_event s \<noteq> Some ''status''" and "current_event s \<noteq> Some ''source''"
    and "strip raw = ''data: '' @ d" and "d \<noteq> ''[DONE]''"
    and "loads env d = Inr data"
    and "py_get data ''choices'' JNull = Inr choices" and "truthy choices"
    and "delta_content data = Inl (OtherException c m)"
    and "event_emitter env = Some em"
  shows "process_line env s raw = Abort (OtherException c m) s
     \<and> returned (pipe env v payload) = Inr (''Error: '' @ m)
     \<and> events (pipe env v payload) = sink s"
proof -
  have "handle_data env s d = Raised (OtherException c m) s"
    using assms(7,8,11-15) by (simp add: handle_data_def append_token_def)
  then have step: "process_line env s raw = Abort (OtherException c m) s"
    using assms(9,10) by (simp add: data_line)
  then have "run_lines env (initial_state env) (body_lines r) = Aborted (OtherException c m) s"
    using assms(5,6) by (simp add: run_lines_append)
  then have "relay env r = Raised (OtherException c m) s"
    by (simp add: relay_def)
  with step show ?thesis
    using assms(1-4) by (simp add: pipe_streaming)
qed

theorem ill_shaped_frame_aborts_witness:
  "body_lines (sample_response ill_lines)
       = [''data: '' @ frame_He] @ (''data: '' @ frame_true) # [''data: '' @ frame_llo, ''data: [DONE]'']
   \<and> run_lines (sample_env ill_lines) (initial_state (sample_env ill_lines)) [''data: '' @ frame_He]
       = Exhausted \<lparr>current_event = None, token_buffer = ''He'', last_flush = 0,
                    sink = [], clock_reads = 2\<rparr>
   \<and> loads (sample_env ill_lines) frame_true = Inr (JDict [(''choices'', JBool True)])
   \<and> delta_content (JDict [(''choices'', JBool True)])
       = Inl (OtherException ''TypeError''
               ([CHR 0x27] @ ''bool'' @ [CHR 0x27] @ '' object is not subscriptable''))
   \<and> returned (pipe (sample_env ill_lines) sample_valves JNull)
       = Inr (''Error: '' @ [CHR 0x27] @ ''bool'' @ [CHR 0x27] @ '' object is not subscriptable'')
   \<and> events (pipe (sample_env ill_lines) sample_valves JNull) = []"
proof -
  let ?s = "\<lparr>current_event = None, token_buffer = ''He'', last_flush = 0,
             sink = [], clock_reads = 2\<rparr>"
  have run: "run_lines (sample_env ill_lines) (initial_state (sample_env ill_lines))
      [''data: '' @ frame_He] = Exhausted ?s"
    by (simp add: sample_defs string_defs initial_state_def process_line_def handle_data_def
        append_token_def delta_content_def and_then_def FLUSH_INTERVAL_def Let_def)
  have dc: "delta_content (JDict [(''choices'', JBool True)])
       = Inl (OtherException ''TypeError''
               ([CHR 0x27] @ ''bool'' @ [CHR 0x27] @ '' object is not subscriptable''))"
    by (simp add: delta_content_def and_then_def)
  show ?thesis
    using ill_shaped_frame_aborts [of sample_valves "sample_env ill_lines" JNull
        "sample_response ill_lines" "[''data: '' @ frame_He]" "''data: '' @ frame_true"
        "[''data: '' @ frame_llo, ''data: [DONE]'']" ?s frame_true
        "JDict [(''choices'', JBool True)]" "JBool True" "''TypeError''"
        "[CHR 0x27] @ ''bool'' @ [CHR 0x27] @ '' object is not subscriptable''"
        "\<lambda>delivered ev. None"] run dc
    by (simp add: sample_defs string_defs raise_for_status_def)
qed

subsection \<open>Failures\<close>

text \<open>
  C8, as the code has it. A timeout of any phase, raised by the transport when the
  request is sent or by the response while it is read, is caught by the one handler of
  line 241: \<^verbatim>\<open>pipe\<close> returns \<^verbatim>\<open>Error: Request timed out\<close>, the same value for every
  phase.
\<close>

theorem timeout_reported:
  assumes "TOOLSET_API_URL v \<noteq> []" and "TOOLSET_API_KEY v \<noteq> []"
    and "transport env (build_request v payload) = Inl (TimeoutException p)
         \<or> (\<exists>r s. transport env (build_request v payload) = Inr r \<and> raise_for_status r = None
                \<and> relay env r = Raised (TimeoutException p) s)"
  shows "returned (pipe env v payload) = Inr ''Error: Request timed out''"
  using assms by (auto simp: pipe_def Let_def)

theorem timeout_reported_witness:
  "transport (timeout_env ConnectTimeout) (build_request sample_valves JNull)
       = Inl (TimeoutException ConnectTimeout)
   \<and> returned (pipe (timeout_env ConnectTimeout) sample_valves JNull)
       = Inr ''Error: Request timed out''
   \<and> transport read_timeout_env (build_request sample_valves JNull)
       = Inr (broken_response (TimeoutException ReadTimeout))
   \<and> relay read_timeout_env (broken_response (TimeoutException ReadTimeout))
       = Raised (TimeoutException ReadTimeout)
          \<lparr>current_event = None, token_buffer = ''He'', last_flush = 0, sink = [],
           clock_reads = 2\<rparr>
   \<and> returned (pipe read_timeout_env sample_valves JNull) = Inr ''Error: Request timed out''"
proof -
  let ?r = "broken_response (TimeoutException ReadTimeout)"
  let ?s = "\<lparr>current_event = None, token_buffer = ''He'', last_flush = 0, sink = [],
             clock_reads = 2\<rparr>"
  have rel: "relay read_timeout_env ?r = Raised (TimeoutException ReadTimeout) ?s"
    by (simp add: relay_def sample_defs string_defs initial_state_def
        process_line_def handle_data_def append_token_def delta_content_def and_then_def
        FLUSH_INTERVAL_def Let_def)
  have tr: "transport read_timeout_env (build_request sample_valves JNull) = Inr ?r"
    by (simp add: read_timeout_env_def)
  have a: "returned (pipe read_timeout_env sample_valves JNull) = Inr ''Error: Request timed out''"
    using timeout_reported [of sample_valves read_timeout_env JNull ReadTimeout] rel tr
    by (auto simp: sample_valves_def raise_for_status_def broken_response_def)
  have b: "returned (pipe (timeout_env ConnectTimeout) sample_valves JNull)
      = Inr ''Error: Request timed out''"
    using timeout_reported [of sample_valves "timeout_env ConnectTimeout" JNull ConnectTimeout]
    by (simp add: sample_valves_def timeout_env_def)
  show ?thesis
    using a b rel tr by (simp add: timeout_env_def)
qed

text \<open>
  C8, as the claim states it, fails: a connect timeout, a write timeout and a read
  timeout give the same returned value, which does not name the phase.
\<close>

theorem timeout_phases_same_value:
  "returned (pipe (timeout_env ConnectTimeout) sample_valves JNull)
       = Inr ''Error: Request timed out''
   \<and> returned (pipe (timeout_env WriteTimeout) sample_valves JNull)
       = returned (pipe (timeout_env ConnectTimeout) sample_valves JNull)
   \<and> returned (pipe (timeout_env ReadTimeout) sample_valves JNull)
       = returned (pipe (timeout_env ConnectTimeout) sample_valves JNull)"
  by (simp add: pipe_def sample_defs Let_def)

text \<open>Every exception the relay raises by itself is an \<^verbatim>\<open>Exception\<close>.\<close>

lemma handle_exception_Exception:
  "is_Exception e \<Longrightarrow> \<exists>m. handle_exception v e = Inr (''Error: '' @ m)"
  by (cases e) simp_all

lemma py_get_raises: "py_get x k d = Inl e \<Longrightarrow> is_Exception e"
  by (cases x) auto

lemma py_item_raises: "py_item x k = Inl e \<Longrightarrow> is_Exception e"
  by (cases x) (auto split: option.splits)

lemma py_item0_raises: "py_item0 x = Inl e \<Longrightarrow> is_Exception e"
  by (cases x rule: py_item0.cases) auto

lemma delta_content_raises: "delta_content data = Inl e \<Longrightarrow> is_Exception e"
  by (auto simp: delta_content_def and_then_def split: sum.splits
      dest: py_get_raises py_item_raises py_item0_raises)

lemma flush_buffer_raises:
  assumes "\<forall>em delivered ev e.
      event_emitter env = Some em \<longrightarrow> em delivered ev = Some e \<longrightarrow> is_Exception e"
    and "flush_buffer env s = Raised e s1"
  shows "is_Exception e"
  using assms
  by (auto simp: flush_buffer_def call_emitter_def split: option.splits if_splits)

lemma emit_tagged_raises:
  assumes "\<forall>em delivered ev e.
      event_emitter env = Some em \<longrightarrow> em delivered ev = Some e \<longrightarrow> is_Exception e"
    and "event_emitter env = Some em"
    and "emit_tagged env em mk data s = Raised e s1"
  shows "is_Exception e"
proof (cases "flush_buffer env s")
  case (Raised e' s')
  with assms(3) have "e = e'" by (simp add: emit_tagged_def)
  with Raised flush_buffer_raises [OF assms(1)] show ?thesis by blast
next
  case (Returned s')
  show ?thesis
  proof (cases "py_get data ''data'' (JDict [])")
    case (Inl e')
    with Returned assms(3) have "e = e'" by (simp add: emit_tagged_def)
    with Inl show ?thesis by (simp add: py_get_raises)
  next
    case (Inr d)
    with Returned assms(3) have "call_emitter em (mk d) s' = Raised e s1"
      by (simp add: emit_tagged_def)
    with assms(1,2) show ?thesis
      by (auto simp: call_emitter_def split: option.splits)
  qed
qed

lemma append_token_raises:
  assumes "\<forall>em delivered ev e.
      event_emitter env = Some em \<longrightarrow> em delivered ev = Some e \<longrightarrow> is_Exception e"
    and "append_token env data s = Raised e s1"
  shows "is_Exception e"
proof (cases "delta_content data")
  case (Inl e')
  with assms(2) have "e = e'" by (simp add: append_token_def)
  with Inl show ?thesis by (simp add: delta_content_raises)
next
  case (Inr content)
  with assms(2) show ?thesis
    by (cases content)
      (auto simp: append_token_def Let_def split: if_splits
        dest: flush_buffer_raises [OF assms(1)])
qed

lemma handle_data_raises:
  assumes "\<forall>em delivered ev e.
      event_emitter env = Some em \<longrightarrow> em delivered ev = Some e \<longrightarrow> is_Exception e"
    and "\<forall>d e. loads env d = Inl e \<longrightarrow> is_Exception e"
    and "handle_data env s d = Raised e s1"
  shows "is_Exception e"
  using assms(2,3)
  by (auto simp: handle_data_def split: sum.splits option.splits if_splits
      dest: emit_tagged_raises [OF assms(1)] append_token_raises [OF assms(1)] py_get_raises)

lemma process_line_raises:
  assumes "\<forall>em delivered ev e.
      event_emitter env = Some em \<longrightarrow> em delivered ev = Some e \<longrightarrow> is_Exception e"
    and "\<forall>d e. loads env d = Inl e \<longrightarrow> is_Exception e"
    and "process_line env s raw = Abort e s1"
  shows "is_Exception e"
  using assms(3)
  by (auto simp: process_line_def Let_def split: if_splits result.splits exn.splits
      dest: flush_buffer_raises [OF assms(1)] handle_data_raises [OF assms(1,2)])

lemma run_lines_raises:
  assumes "\<forall>em delivered ev e.
      event_emitter env = Some em \<longrightarrow> em delivered ev = Some e \<longrightarrow> is_Exception e"
    and "\<forall>d e. loads env d = Inl e \<longrightarrow> is_Exception e"
    and "run_lines env s ls = Aborted e s1"
  shows "is_Exception e"
  using assms(3)
proof (induction ls arbitrary: s)
  case Nil
  then show ?case by simp
next
  case (Cons l ls)
  then show ?case
    by (auto split: step.splits dest: process_line_raises [OF assms(1,2)])
qed

lemma relay_raises:
  assumes "\<forall>em delivered ev e.
      event_emitter env = Some em \<longrightarrow> em delivered ev = Some e \<longrightarrow> is_Exception e"
    and "\<forall>d e. loads env d = Inl e \<longrightarrow> is_Exception e"
    and "\<forall>e. body_error r = Some e \<longrightarrow> is_Exception e"
    and "relay env r = Raised e s1"
  shows "is_Exception e"
  using assms(3,4)
  by (auto simp: relay_def split: loop_end.splits option.splits
      dest: run_lines_raises [OF assms(1,2)] flush_buffer_raises [OF assms(1)])

text \<open>
  C5, as the code has it. When every exception that the callback, the decoder, the
  transport and the line source raise is an instance of \<^verbatim>\<open>Exception\<close>, a call of
  \<^verbatim>\<open>pipe\<close> returns a string and no exception leaves it: the empty string, or
  \<^verbatim>\<open>Error: \<close> followed by a description. The body of a response is a finite list of
  lines here, after which the line source ends or raises.
\<close>

theorem pipe_returns_string:
  assumes "\<forall>em delivered ev e.
      event_emitter env = Some em \<longrightarrow> em delivered ev = Some e \<longrightarrow> is_Exception e"
    and "\<forall>d e. loads env d = Inl e \<longrightarrow> is_Exception e"
    and "\<forall>req e. transport env req = Inl e \<longrightarrow> is_Exception e"
    and "\<forall>req r e. transport env req = Inr r \<longrightarrow> body_error r = Some e \<longrightarrow> is_Exception e"
  shows "returned (pipe env v payload) = Inr []
     \<or> (\<exists>m. returned (pipe env v payload) = Inr (''Error: '' @ m))"
proof -
  let ?req = "build_request v payload"
  consider (url) "TOOLSET_API_URL v = []"
    | (key) "TOOLSET_API_URL v \<noteq> []" "TOOLSET_API_KEY v = []"
    | (conn) e where "TOOLSET_API_URL v \<noteq> []" "TOOLSET_API_KEY v \<noteq> []"
        "transport env ?req = Inl e"
    | (resp) r where "TOOLSET_API_URL v \<noteq> []" "TOOLSET_API_KEY v \<noteq> []"
        "transport env ?req = Inr r"
    by (cases "transport env ?req") auto
  then show ?thesis
  proof cases
    case url
    then show ?thesis by (simp add: pipe_def)
  next
    case key
    then show ?thesis by (simp add: pipe_def)
  next
    case conn
    with assms(3) have "is_Exception e" by blast
    then obtain m where "handle_exception v e = Inr (''Error: '' @ m)"
      using handle_exception_Exception by blast
    with conn show ?thesis by (simp add: pipe_def Let_def)
  next
    case resp
    show ?thesis
    proof (cases "raise_for_status r")
      case (Some e)
      then have "e = HTTPStatusError (status_code r)"
        by (simp add: raise_for_status_def split: if_splits)
      with Some resp show ?thesis by (simp add: pipe_def Let_def)
    next
      case None
      show ?thesis
      proof (cases "relay env r")
        case (Returned s)
        with None resp show ?thesis by (simp add: pipe_streaming)
      next
        case (Raised e s)
        from assms(4) resp(3) have "\<forall>e. body_error r = Some e \<longrightarrow> is_Exception e"
          by blast
        with Raised have "is_Exception e"
          using relay_raises [OF assms(1,2)] by blast
        then obtain m where "handle_exception v e = Inr (''Error: '' @ m)"
          using handle_exception_Exception by blast
        with Raised None resp show ?thesis by (simp add: pipe_streaming)
      qed
    qed
  qed
qed

theorem pipe_returns_string_witness:
  "(returned (pipe read_timeout_env sample_valves JNull) = Inr []
      \<or> (\<exists>m. returned (pipe read_timeout_env sample_valves JNull) = Inr (''Error: '' @ m)))
   \<and> returned (pipe read_timeout_env sample_valves JNull) = Inr ''Error: Request timed out''
   \<and> events (pipe read_timeout_env sample_valves JNull) = []"
proof -
  have em: "\<forall>em delivered ev e. event_emitter read_timeout_env = Some em
      \<longrightarrow> em delivered ev = Some e \<longrightarrow> is_Exception e"
    by (auto simp: read_timeout_env_def sample_env_def)
  have ld: "\<forall>d e. loads read_timeout_env d = Inl e \<longrightarrow> is_Exception e"
    by (auto simp: sample_defs split: option.splits if_splits)
  have tr: "\<forall>req e. transport read_timeout_env req = Inl e \<longrightarrow> is_Exception e"
    by (simp add: read_timeout_env_def)
  have bd: "\<forall>req r e. transport read_timeout_env req = Inr r \<longrightarrow> body_error r = Some e
      \<longrightarrow> is_Exception e"
    by (auto simp: read_timeout_env_def broken_response_def)
  have val: "returned (pipe read_timeout_env sample_valves JNull) = Inr ''Error: Request timed out''
      \<and> events (pipe read_timeout_env sample_valves JNull) = []"
    by (simp add: pipe_def relay_def sample_defs string_defs initial_state_def
        raise_for_status_def process_line_def handle_data_def append_token_def
        delta_content_def and_then_def FLUSH_INTERVAL_def Let_def)
  show ?thesis
    using pipe_returns_string [OF em ld tr bd, of sample_valves JNull] val by simp
qed

text \<open>
  C5, as the claim states it, fails: the handler of line 247 catches \<^verbatim>\<open>Exception\<close>, and
  the \<^verbatim>\<open>CancelledError\<close> raised in the line source when the task is cancelled is not one.
  It leaves \<^verbatim>\<open>pipe\<close>, which returns no value.
\<close>

theorem cancellation_propagates:
  "returned (pipe cancelled_env sample_valves JNull) = Inl (BaseExc ''CancelledError'')"
  by (simp add: pipe_def relay_def sample_defs string_defs initial_state_def
      raise_for_status_def process_line_def handle_data_def append_token_def
      delta_content_def and_then_def FLUSH_INTERVAL_def Let_def)

end
